theory Spec2Isabelle
  imports Complex_Main
begin

section \<open>Data model of \<open>prepare_data.py\<close>\<close>

text \<open>
  The script reads four CSV tables with pandas. A table is modelled as the list of its
  rows, in file order. A cell that pandas reads as missing (NaN / None) is \<open>None\<close>;
  a present integer code is \<open>Some n\<close>. Every table carries the join key \<open>Num_Acc\<close>;
  the other columns of the characteristics, locations and vehicles tables are never
  inspected by the aggregation and live in the extension part of the record.
  Ratios and means, which pandas computes in binary floating point, are modelled as
  exact rationals.
\<close>

record keyed =
  Num_Acc :: "int option"

record usager = keyed +
  grav :: "int option"
  catu :: "int option"
  sexe :: "int option"
  an_nais :: "int option"
  id_usager :: "string option"

text \<open>One row of \<open>stats_usagers\<close> after the columns have been renamed and the tuple
  \<open>gravite_stats\<close> has been spread over four columns.\<close>

record stats_usager = keyed +
  nb_pietons :: nat
  pct_hommes :: rat
  age_moyen :: "rat option"
  nb_usagers :: nat
  nb_tues :: nat
  nb_blesses_hospitalises :: nat
  nb_blesses_legers :: nat
  nb_indemnes :: nat

record stats_vehicule = keyed +
  nb_vehicules :: nat

text \<open>One row of \<open>df_accident\<close>: the characteristics row, the columns merged on from
  \<open>stats_usagers\<close> and \<open>stats_vehicules\<close> (all null together when the left merge found no
  match), the three derived severity columns, and the retained location row.\<close>

record ('c, 'l) accident =
  base :: "'c keyed_scheme"
  usagers_stats :: "stats_usager option"
  vehicules_stats :: "stats_vehicule option"
  score_gravite :: "nat option"
  categorie_gravite :: string
  accident_mortel :: int
  lieu :: "'l keyed_scheme option"

text \<open>Reading a merged column of an accident row: null when the merge found no match.\<close>

definition col :: "(stats_usager \<Rightarrow> 'v) \<Rightarrow> ('c, 'l) accident \<Rightarrow> 'v option" where
  "col f r = map_option f (usagers_stats r)"

section \<open>Label strings\<close>

text \<open>Python strings are compared only for equality here; accented letters are written
  as their UTF-8 bytes.\<close>

definition e_aigu :: string where
  "e_aigu = [CHR 0xC3, CHR 0xA9]"

definition e_grave :: string where
  "e_grave = [CHR 0xC3, CHR 0xA8]"

definition NON_RENSEIGNE :: string where
  "NON_RENSEIGNE = ''Non renseign'' @ e_aigu"

definition MORTEL :: string where
  "MORTEL = ''Mortel''"

definition GRAVE :: string where
  "GRAVE = ''Grave''"

definition LEGER :: string where
  "LEGER = ''L'' @ e_aigu @ ''ger''"

definition MATERIEL_UNIQUEMENT :: string where
  "MATERIEL_UNIQUEMENT = ''Mat'' @ e_aigu @ ''riel uniquement''"

section \<open>pandas primitives used by the aggregation\<close>

fun dropna :: "'a option list \<Rightarrow> 'a list" where
  "dropna [] = []"
| "dropna (None # xs) = dropna xs"
| "dropna (Some v # xs) = v # dropna xs"

text \<open>\<open>(x == c).sum()\<close>: a missing cell compares unequal to every code.\<close>

definition count_eq :: "int \<Rightarrow> int option list \<Rightarrow> nat" where
  "count_eq c x = length (filter (\<lambda>v. v = Some c) x)"

text \<open>\<open>Series.mean()\<close> skips missing cells and is NaN when nothing is left.\<close>

definition mean_skipna :: "int option list \<Rightarrow> rat option" where
  "mean_skipna x =
     (let vs = dropna x
      in if vs = [] then None else Some (of_int (sum_list vs) / of_nat (length vs)))"

text \<open>The named reducer \<open>'count'\<close> counts the non-missing cells of the column.\<close>

definition agg_count :: "'a option list \<Rightarrow> nat" where
  "agg_count x = length (dropna x)"

text \<open>\<open>groupby('Num_Acc')\<close>: rows with a missing key belong to no group; the groups come
  out in increasing key order, each holding its rows in table order.\<close>

definition group_keys :: "'a keyed_scheme list \<Rightarrow> int list" where
  "group_keys t = sort (remdups (dropna (map Num_Acc t)))"

definition group_rows :: "int \<Rightarrow> 'a keyed_scheme list \<Rightarrow> 'a keyed_scheme list" where
  "group_rows k t = filter (\<lambda>r. Num_Acc r = Some k) t"

text \<open>\<open>merge(..., how='left')\<close>: every left row, in order, paired with each right row of
  the same key, or once with null right columns when there is none. pandas matches a
  missing key with a missing key, as equality on \<open>option\<close> does.\<close>

fun merge_left :: "('a \<Rightarrow> 'k) \<Rightarrow> ('b \<Rightarrow> 'k) \<Rightarrow> 'a list \<Rightarrow> 'b list \<Rightarrow> ('a \<times> 'b option) list" where
  "merge_left ka kb [] rs = []"
| "merge_left ka kb (l # ls) rs =
     (case filter (\<lambda>r. kb r = ka l) rs of
        [] \<Rightarrow> [(l, None)]
      | ms \<Rightarrow> map (\<lambda>r. (l, Some r)) ms) @ merge_left ka kb ls rs"

text \<open>\<open>drop_duplicates(key, keep='first')\<close>, scanning the rows with the keys seen so far.\<close>

fun drop_duplicates_from :: "('a \<Rightarrow> 'k) \<Rightarrow> 'k list \<Rightarrow> 'a list \<Rightarrow> 'a list" where
  "drop_duplicates_from key seen [] = []"
| "drop_duplicates_from key seen (x # xs) =
     (if key x \<in> set seen then drop_duplicates_from key seen xs
      else x # drop_duplicates_from key (key x # seen) xs)"

definition drop_duplicates :: "('a \<Rightarrow> 'k) \<Rightarrow> 'a list \<Rightarrow> 'a list" where
  "drop_duplicates key xs = drop_duplicates_from key [] xs"

section \<open>Per-accident aggregation (\<open>main\<close>, step 4)\<close>

definition agg_grav :: "int option list \<Rightarrow> nat \<times> nat \<times> nat \<times> nat" where
  "agg_grav x = (count_eq 2 x, count_eq 3 x, count_eq 4 x, count_eq 1 x)"

definition agg_catu :: "int option list \<Rightarrow> nat" where
  "agg_catu x = count_eq 3 x"

definition agg_sexe :: "int option list \<Rightarrow> rat" where
  "agg_sexe x = (if length x > 0 then of_nat (count_eq 1 x) / of_nat (length x) else 0)"

definition agg_an_nais :: "int option list \<Rightarrow> rat option" where
  "agg_an_nais x =
     (let y = filter (\<lambda>v. v \<noteq> Some (- 1)) x
      in if length y > 0 then map_option (\<lambda>m. 2024 - m) (mean_skipna y) else None)"

definition agg_usagers :: "int \<Rightarrow> usager list \<Rightarrow> stats_usager" where
  "agg_usagers k g =
     (case agg_grav (map grav g) of (t, h, l, i) \<Rightarrow>
        \<lparr>Num_Acc = Some k,
         nb_pietons = agg_catu (map catu g),
         pct_hommes = agg_sexe (map sexe g),
         age_moyen = agg_an_nais (map an_nais g),
         nb_usagers = agg_count (map id_usager g),
         nb_tues = t,
         nb_blesses_hospitalises = h,
         nb_blesses_legers = l,
         nb_indemnes = i\<rparr>)"

definition stats_usagers :: "usager list \<Rightarrow> stats_usager list" where
  "stats_usagers usagers = map (\<lambda>k. agg_usagers k (group_rows k usagers)) (group_keys usagers)"

definition stats_vehicules :: "'v keyed_scheme list \<Rightarrow> stats_vehicule list" where
  "stats_vehicules vehicules =
     map (\<lambda>k. \<lparr>Num_Acc = Some k, nb_vehicules = length (group_rows k vehicules)\<rparr>)
       (group_keys vehicules)"

text \<open>Column arithmetic: a null operand makes the result null.\<close>

definition times_na :: "nat option \<Rightarrow> nat \<Rightarrow> nat option" where
  "times_na a c = map_option (\<lambda>v. v * c) a"

definition plus_na :: "nat option \<Rightarrow> nat option \<Rightarrow> nat option" where
  "plus_na a b = (case a of None \<Rightarrow> None | Some x \<Rightarrow> map_option (\<lambda>y. x + y) b)"

text \<open>\<open>v > 0\<close> on a possibly null number: NaN compares false.\<close>

definition gt0 :: "nat option \<Rightarrow> bool" where
  "gt0 a = (case a of None \<Rightarrow> False | Some v \<Rightarrow> v > 0)"

definition categoriser_gravite :: "('c, 'l) accident \<Rightarrow> string" where
  "categoriser_gravite row =
     (if gt0 (col nb_tues row) then MORTEL
      else if gt0 (col nb_blesses_hospitalises row) then GRAVE
      else if gt0 (col nb_blesses_legers row) then LEGER
      else MATERIEL_UNIQUEMENT)"

text \<open>The three assignments of derived columns, in the order of the source.\<close>

definition add_gravite :: "('c, 'l) accident \<Rightarrow> ('c, 'l) accident" where
  "add_gravite r0 =
     (let r1 = r0\<lparr>score_gravite :=
                   plus_na (plus_na (times_na (col nb_tues r0) 100)
                                    (times_na (col nb_blesses_hospitalises r0) 30))
                           (times_na (col nb_blesses_legers r0) 10)\<rparr>;
          r2 = r1\<lparr>categorie_gravite := categoriser_gravite r1\<rparr>
      in r2\<lparr>accident_mortel := (if gt0 (col nb_tues r2) then 1 else 0)\<rparr>)"

text \<open>The accident-grain table up to the location merge. The derived and location columns
  do not exist before they are assigned; \<open>blank\<close> fills them until then. The label and
  calendar columns added afterwards are column-wise and are treated in the later sections.\<close>

definition blank :: "'c keyed_scheme \<Rightarrow> stats_usager option \<Rightarrow> stats_vehicule option \<Rightarrow> ('c, 'l) accident" where
  "blank c su sv =
     \<lparr>base = c, usagers_stats = su, vehicules_stats = sv, score_gravite = None,
      categorie_gravite = [], accident_mortel = 0, lieu = None\<rparr>"

definition df_accident ::
  "'c keyed_scheme list \<Rightarrow> usager list \<Rightarrow> 'v keyed_scheme list \<Rightarrow> 'l keyed_scheme list \<Rightarrow> ('c, 'l) accident list" where
  "df_accident caract usagers vehicules lieux =
     (let m1 = merge_left Num_Acc Num_Acc caract (stats_usagers usagers);
          m2 = merge_left (\<lambda>(c, su). Num_Acc c) Num_Acc m1 (stats_vehicules vehicules);
          m3 = map (\<lambda>((c, su), sv). add_gravite (blank c su sv)) m2;
          lieux_enrichi = drop_duplicates Num_Acc lieux;
          m4 = merge_left (\<lambda>r. Num_Acc (base r)) Num_Acc m3 lieux_enrichi
      in map (\<lambda>(r, l). r\<lparr>lieu := l\<rparr>) m4)"

section \<open>The accident-grain table, row by row\<close>

text \<open>What the merges amount to once the keys of the right-hand tables are known to be
  distinct: the aggregate row of an accident's persons and of its vehicles, null when it
  has none, and the accident row built from one characteristics row.\<close>

definition usagers_de :: "int option \<Rightarrow> usager list \<Rightarrow> stats_usager option" where
  "usagers_de ko usagers =
     (case ko of None \<Rightarrow> None
      | Some k \<Rightarrow> if group_rows k usagers = [] then None
                  else Some (agg_usagers k (group_rows k usagers)))"

definition vehicules_de :: "int option \<Rightarrow> 'v keyed_scheme list \<Rightarrow> stats_vehicule option" where
  "vehicules_de ko vehicules =
     (case ko of None \<Rightarrow> None
      | Some k \<Rightarrow> if group_rows k vehicules = [] then None
                  else Some \<lparr>Num_Acc = Some k, nb_vehicules = length (group_rows k vehicules)\<rparr>)"

definition ligne :: "usager list \<Rightarrow> 'v keyed_scheme list \<Rightarrow> 'l keyed_scheme list \<Rightarrow> 'c keyed_scheme \<Rightarrow> ('c, 'l) accident" where
  "ligne usagers vehicules lieux c =
     (add_gravite (blank c (usagers_de (Num_Acc c) usagers) (vehicules_de (Num_Acc c) vehicules)))
       \<lparr>lieu := find (\<lambda>l. Num_Acc l = Num_Acc c) lieux\<rparr>"


section \<open>Code dictionary and label enrichment (\<open>enrichir_colonne\<close>)\<close>



































section \<open>Time of day (\<open>determiner_periode_journee\<close>)\<close>

definition MATIN :: string where
  "MATIN = ''Matin''"

definition APRES_MIDI :: string where
  "APRES_MIDI = ''Apr'' @ e_grave @ ''s-midi''"

definition SOIREE :: string where
  "SOIREE = ''Soir'' @ e_aigu @ ''e''"

definition NUIT :: string where
  "NUIT = ''Nuit''"

text \<open>\<open>s.split(sep)\<close> with a one-character separator: never the empty list.\<close>

fun split :: "char \<Rightarrow> string \<Rightarrow> string list" where
  "split sep [] = [[]]"
| "split sep (c # cs) =
     (if c = sep then [] # split sep cs
      else (case split sep cs of [] \<Rightarrow> [[c]] | w # ws \<Rightarrow> (c # w) # ws))"

text \<open>
  The argument \<open>heure\<close> is \<open>None\<close> for a missing cell (\<open>pd.isna\<close>) and otherwise the text
  \<open>str(heure)\<close>. The builtin \<open>int\<close> is a parameter: \<open>to_int s\<close> is \<open>None\<close> when \<open>int(s)\<close>
  raises. Indexing the fields with \<open>[0]\<close> raises on an empty list. The bare \<open>except\<close>
  turns both failures into the sentinel.
\<close>

definition determiner_periode_journee :: "(string \<Rightarrow> int option) \<Rightarrow> string option \<Rightarrow> string" where
  "determiner_periode_journee to_int heure =
     (case heure of
        None \<Rightarrow> NON_RENSEIGNE
      | Some s \<Rightarrow>
          (case split (CHR '':'') s of
             [] \<Rightarrow> NON_RENSEIGNE
           | f # _ \<Rightarrow>
               (case to_int f of
                  None \<Rightarrow> NON_RENSEIGNE
                | Some h \<Rightarrow>
                    if 6 \<le> h \<and> h < 12 then MATIN
                    else if 12 \<le> h \<and> h < 18 then APRES_MIDI
                    else if 18 \<le> h \<and> h < 22 then SOIREE
                    else NUIT)))"

text \<open>One behaviour of \<open>int\<close>, to run the function on examples: decimal ASCII text, where
  surrounding white space is dropped, one sign may lead, and single underscores may
  separate the digits.\<close>

definition is_space :: "char \<Rightarrow> bool" where
  "is_space c = (of_char c \<in> set [9, 10, 11, 12, 13, 28, 29, 30, 31, 32 :: nat])"

definition strip :: "string \<Rightarrow> string" where
  "strip s = rev (dropWhile is_space (rev (dropWhile is_space s)))"

definition digit_val :: "char \<Rightarrow> nat option" where
  "digit_val c = (let n = of_char c :: nat in if 48 \<le> n \<and> n \<le> 57 then Some (n - 48) else None)"

fun digits_from :: "nat \<Rightarrow> string \<Rightarrow> nat option" where
  "digits_from acc [] = Some acc"
| "digits_from acc [c] =
     (case digit_val c of None \<Rightarrow> None | Some v \<Rightarrow> Some (10 * acc + v))"
| "digits_from acc (c # d # ds) =
     (if c = CHR ''_'' then
        (case digit_val d of None \<Rightarrow> None | Some v \<Rightarrow> digits_from (10 * acc + v) ds)
      else
        (case digit_val c of None \<Rightarrow> None | Some v \<Rightarrow> digits_from (10 * acc + v) (d # ds)))"

definition digits_value :: "string \<Rightarrow> nat option" where
  "digits_value s =
     (case s of
        [] \<Rightarrow> None
      | c # cs \<Rightarrow> (case digit_val c of None \<Rightarrow> None | Some v \<Rightarrow> digits_from v cs))"

definition int_ascii :: "string \<Rightarrow> int option" where
  "int_ascii s =
     (case strip s of
        [] \<Rightarrow> None
      | c # cs \<Rightarrow>
          if c = CHR ''-'' then map_option (\<lambda>n. - int n) (digits_value cs)
          else if c = CHR ''+'' then map_option int (digits_value cs)
          else map_option int (digits_value (c # cs)))"

section \<open>Age and age bucket (\<open>calculer_age\<close>, \<open>pd.cut\<close>)\<close>

definition calculer_age :: "int option \<Rightarrow> int \<Rightarrow> int option" where
  "calculer_age an_naissance an_accident =
     (case an_naissance of
        None \<Rightarrow> None
      | Some b \<Rightarrow> if b = - 1 then None else Some (an_accident - b))"

text \<open>\<open>pd.cut(x, bins, labels)\<close> with the defaults \<open>right=True\<close>, \<open>include_lowest=False\<close>:
  the label of the interval \<open>(lo, hi]\<close> between consecutive edges that holds the value,
  missing when no interval does.\<close>

fun cut :: "int list \<Rightarrow> string list \<Rightarrow> int \<Rightarrow> string option" where
  "cut (lo # hi # bins) (lab # labels) x =
     (if lo < x \<and> x \<le> hi then Some lab else cut (hi # bins) labels x)"
| "cut bins labels x = None"

definition tranche_age :: "int option \<Rightarrow> string option" where
  "tranche_age age =
     (case age of
        None \<Rightarrow> None
      | Some a \<Rightarrow>
          cut [0, 18, 25, 35, 45, 55, 65, 100]
              [''0-17'', ''18-24'', ''25-34'', ''35-44'', ''45-54'', ''55-64'', ''65+''] a)"

section \<open>A small data set\<close>

text \<open>Three accidents: the first with a killed, a lightly injured and an unharmed person,
  the second with two hospitalised persons born in 1990 and 2000, the third without any
  person or vehicle row. The first accident has two location rows.\<close>

record lieu = keyed +
  vma :: "int option"

definition ex_caract :: "keyed list" where
  "ex_caract = [\<lparr>Num_Acc = Some 1\<rparr>, \<lparr>Num_Acc = Some 2\<rparr>, \<lparr>Num_Acc = Some 3\<rparr>]"

definition ex_usagers :: "usager list" where
  "ex_usagers =
    [\<lparr>Num_Acc = Some 1, grav = Some 2, catu = Some 1, sexe = Some 1, an_nais = Some 1980, id_usager = Some ''u1''\<rparr>,
     \<lparr>Num_Acc = Some 2, grav = Some 3, catu = Some 1, sexe = Some 2, an_nais = Some 1990, id_usager = Some ''u2''\<rparr>,
     \<lparr>Num_Acc = Some 1, grav = Some 4, catu = Some 3, sexe = Some 2, an_nais = Some (- 1), id_usager = Some ''u3''\<rparr>,
     \<lparr>Num_Acc = Some 1, grav = Some 1, catu = Some 2, sexe = Some 2, an_nais = None, id_usager = Some ''u4''\<rparr>,
     \<lparr>Num_Acc = Some 2, grav = Some 3, catu = Some 2, sexe = Some 1, an_nais = Some 2000, id_usager = Some ''u5''\<rparr>]"

definition ex_vehicules :: "keyed list" where
  "ex_vehicules = [\<lparr>Num_Acc = Some 1\<rparr>, \<lparr>Num_Acc = Some 1\<rparr>, \<lparr>Num_Acc = Some 2\<rparr>]"

definition ex_lieux :: "lieu list" where
  "ex_lieux = [\<lparr>Num_Acc = Some 1, vma = Some 50\<rparr>, \<lparr>Num_Acc = Some 1, vma = Some 90\<rparr>,
               \<lparr>Num_Acc = Some 3, vma = Some 30\<rparr>]"

definition ex_stats1 :: stats_usager where
  "ex_stats1 = \<lparr>Num_Acc = Some 1, nb_pietons = 1, pct_hommes = 1 / 3,
     age_moyen = Some 44, nb_usagers = 3, nb_tues = 1,
     nb_blesses_hospitalises = 0, nb_blesses_legers = 1, nb_indemnes = 1\<rparr>"

definition ex_stats2 :: stats_usager where
  "ex_stats2 = \<lparr>Num_Acc = Some 2, nb_pietons = 0, pct_hommes = 1 / 2,
     age_moyen = Some 29, nb_usagers = 2, nb_tues = 0,
     nb_blesses_hospitalises = 2, nb_blesses_legers = 0, nb_indemnes = 0\<rparr>"

definition ex_ligne1 :: "(unit, \<lparr>vma :: int option\<rparr>) accident" where
  "ex_ligne1 = \<lparr>base = \<lparr>Num_Acc = Some 1\<rparr>, usagers_stats = Some ex_stats1,
     vehicules_stats = Some \<lparr>Num_Acc = Some 1, nb_vehicules = 2\<rparr>,
     score_gravite = Some 110, categorie_gravite = MORTEL,
     accident_mortel = 1, lieu = Some \<lparr>Num_Acc = Some 1, vma = Some 50\<rparr>\<rparr>"

definition ex_ligne2 :: "(unit, \<lparr>vma :: int option\<rparr>) accident" where
  "ex_ligne2 = \<lparr>base = \<lparr>Num_Acc = Some 2\<rparr>, usagers_stats = Some ex_stats2,
     vehicules_stats = Some \<lparr>Num_Acc = Some 2, nb_vehicules = 1\<rparr>,
     score_gravite = Some 60, categorie_gravite = GRAVE,
     accident_mortel = 0, lieu = None\<rparr>"

definition ex_ligne3 :: "(unit, \<lparr>vma :: int option\<rparr>) accident" where
  "ex_ligne3 = \<lparr>base = \<lparr>Num_Acc = Some 3\<rparr>, usagers_stats = None,
     vehicules_stats = None,
     score_gravite = None, categorie_gravite = MATERIEL_UNIQUEMENT,
     accident_mortel = 0, lieu = Some \<lparr>Num_Acc = Some 3, vma = Some 30\<rparr>\<rparr>"



section \<open>Merges, grouping and de-duplication\<close>

lemma filter_key_distinct:
  "distinct (map kb rs) \<Longrightarrow>
   filter (\<lambda>r. kb r = k) rs = (case find (\<lambda>r. kb r = k) rs of None \<Rightarrow> [] | Some r \<Rightarrow> [r])"
proof (induction rs)
  case Nil
  then show ?case by simp
next
  case (Cons r rs)
  show ?case
  proof (cases "kb r = k")
    case True
    from Cons.prems have "kb r \<notin> kb ` set rs" by simp
    then have "\<forall>x \<in> set rs. kb x \<noteq> kb r" by (metis imageI)
    with True have "filter (\<lambda>x. kb x = k) rs = []"
      by (simp add: filter_empty_conv)
    with True show ?thesis by simp
  next
    case False
    with Cons show ?thesis by simp
  qed
qed

lemma merge_left_distinct:
  "distinct (map kb rs) \<Longrightarrow>
   merge_left ka kb ls rs = map (\<lambda>l. (l, find (\<lambda>r. kb r = ka l) rs)) ls"
  by (induction ls) (simp_all add: filter_key_distinct split: option.split)

lemma set_dropna: "set (dropna xs) = {v. Some v \<in> set xs}"
  by (induction xs rule: dropna.induct) auto

lemma distinct_group_keys: "distinct (group_keys t)"
  by (simp add: group_keys_def)

lemma set_group_keys: "k \<in> set (group_keys t) \<longleftrightarrow> group_rows k t \<noteq> []"
  by (force simp: group_keys_def group_rows_def set_dropna filter_empty_conv)

lemma find_eq_const: "find (\<lambda>x. x = a) xs = (if a \<in> set xs then Some a else None)"
  by (induction xs) auto

lemma find_map: "find P (map f xs) = map_option f (find (P \<circ> f) xs)"
  by (induction xs) auto

lemma Num_Acc_agg_usagers: "Num_Acc (agg_usagers k g) = Some k"
  by (simp add: agg_usagers_def agg_grav_def)

lemma keys_stats_usagers: "map Num_Acc (stats_usagers us) = map Some (group_keys us)"
  by (simp add: stats_usagers_def Num_Acc_agg_usagers comp_def)

lemma distinct_stats_usagers: "distinct (map Num_Acc (stats_usagers us))"
  by (simp add: keys_stats_usagers distinct_map distinct_group_keys)

lemma find_stats_usagers:
  "find (\<lambda>s. Num_Acc s = ko) (stats_usagers us) = usagers_de ko us"
proof (cases ko)
  case None
  have "\<And>ks. find (\<lambda>s. Num_Acc s = None) (map (\<lambda>k. agg_usagers k (group_rows k us)) ks) = None"
    by (simp add: find_None_iff Num_Acc_agg_usagers)
  with None show ?thesis by (simp add: stats_usagers_def usagers_de_def)
next
  case (Some k)
  have "find (\<lambda>s. Num_Acc s = Some k) (stats_usagers us)
        = map_option (\<lambda>k. agg_usagers k (group_rows k us)) (find (\<lambda>x. x = k) (group_keys us))"
    by (simp add: stats_usagers_def find_map comp_def Num_Acc_agg_usagers)
  with Some show ?thesis
    by (simp add: find_eq_const set_group_keys usagers_de_def)
qed

lemma distinct_stats_vehicules: "distinct (map Num_Acc (stats_vehicules vs))"
  by (simp add: stats_vehicules_def comp_def distinct_map distinct_group_keys)

lemma find_stats_vehicules:
  "find (\<lambda>s. Num_Acc s = ko) (stats_vehicules vs) = vehicules_de ko vs"
proof (cases ko)
  case None
  then show ?thesis
    by (simp add: stats_vehicules_def vehicules_de_def find_None_iff)
next
  case (Some k)
  then show ?thesis
    by (simp add: stats_vehicules_def find_map comp_def find_eq_const set_group_keys
        vehicules_de_def)
qed

lemma in_drop_duplicates_from:
  "x \<in> set (drop_duplicates_from key seen xs) \<Longrightarrow> key x \<notin> set seen \<and> x \<in> set xs"
proof (induction xs arbitrary: seen)
  case Nil
  then show ?case by simp
next
  case (Cons y ys)
  show ?case
  proof (cases "key y \<in> set seen")
    case True
    with Cons.prems have "x \<in> set (drop_duplicates_from key seen ys)" by simp
    from Cons.IH [OF this] show ?thesis by simp
  next
    case False
    with Cons.prems
    consider "x = y" | "x \<in> set (drop_duplicates_from key (key y # seen) ys)" by auto
    then show ?thesis
    proof cases
      case 1
      with False show ?thesis by simp
    next
      case 2
      from Cons.IH [OF this] show ?thesis by simp
    qed
  qed
qed

lemma distinct_drop_duplicates_from:
  "distinct (map key (drop_duplicates_from key seen xs))"
proof (induction xs arbitrary: seen)
  case Nil
  then show ?case by simp
next
  case (Cons x xs)
  have "key x \<notin> key ` set (drop_duplicates_from key (key x # seen) xs)"
    using in_drop_duplicates_from [of _ key "key x # seen" xs] by fastforce
  with Cons show ?case by simp
qed

lemma find_drop_duplicates_from:
  "find (\<lambda>x. key x = k) (drop_duplicates_from key seen xs)
   = (if k \<in> set seen then None else find (\<lambda>x. key x = k) xs)"
  by (induction xs arbitrary: seen) auto

lemma distinct_drop_duplicates: "distinct (map key (drop_duplicates key xs))"
  by (simp add: drop_duplicates_def distinct_drop_duplicates_from)

lemma find_drop_duplicates:
  "find (\<lambda>x. key x = k) (drop_duplicates key xs) = find (\<lambda>x. key x = k) xs"
  by (simp add: drop_duplicates_def find_drop_duplicates_from)

lemma base_add_gravite: "base (add_gravite r) = base r"
  by (simp add: add_gravite_def Let_def)

lemma df_accident_eq:
  "df_accident caract usagers vehicules lieux = map (ligne usagers vehicules lieux) caract"
proof -
  have m1: "merge_left Num_Acc Num_Acc caract (stats_usagers usagers)
            = map (\<lambda>c. (c, usagers_de (Num_Acc c) usagers)) caract"
    by (simp add: merge_left_distinct distinct_stats_usagers find_stats_usagers)
  have m2: "merge_left (\<lambda>(c, su). Num_Acc c) Num_Acc
              (map (\<lambda>c. (c, usagers_de (Num_Acc c) usagers)) caract) (stats_vehicules vehicules)
            = map (\<lambda>c. ((c, usagers_de (Num_Acc c) usagers), vehicules_de (Num_Acc c) vehicules)) caract"
    by (simp add: merge_left_distinct distinct_stats_vehicules find_stats_vehicules comp_def)
  show ?thesis
    unfolding df_accident_def Let_def m1 m2
    by (simp add: merge_left_distinct distinct_drop_duplicates find_drop_duplicates comp_def
        base_add_gravite blank_def ligne_def)
qed

lemma col_ligne: "col f (ligne us vs ls c) = map_option f (usagers_de (Num_Acc c) us)"
  by (simp add: ligne_def col_def add_gravite_def Let_def blank_def)

lemma score_ligne:
  "score_gravite (ligne us vs ls c) =
     plus_na (plus_na (times_na (col nb_tues (ligne us vs ls c)) 100)
                      (times_na (col nb_blesses_hospitalises (ligne us vs ls c)) 30))
             (times_na (col nb_blesses_legers (ligne us vs ls c)) 10)"
  by (simp add: ligne_def col_def add_gravite_def Let_def blank_def)

lemma categorie_ligne:
  "categorie_gravite (ligne us vs ls c) = categoriser_gravite (ligne us vs ls c)"
  by (simp add: ligne_def col_def add_gravite_def Let_def blank_def categoriser_gravite_def)

lemma mortel_ligne:
  "accident_mortel (ligne us vs ls c) = (if gt0 (col nb_tues (ligne us vs ls c)) then 1 else 0)"
  by (simp add: ligne_def col_def add_gravite_def Let_def blank_def)

lemma labels_distinct:
  "distinct [MORTEL, GRAVE, LEGER, MATERIEL_UNIQUEMENT, NON_RENSEIGNE]"
  by (simp add: MORTEL_def GRAVE_def LEGER_def MATERIEL_UNIQUEMENT_def NON_RENSEIGNE_def e_aigu_def)

lemma base_ligne: "base (ligne us vs ls c) = c"
  by (simp add: ligne_def base_add_gravite blank_def)










section \<open>Reducers\<close>

lemma count_eq_map: "count_eq c (map f g) = length (filter (\<lambda>p. f p = Some c) g)"
  by (simp add: count_eq_def filter_map comp_def)

lemma pct_hommes_agg:
  "pct_hommes (agg_usagers k g) = agg_sexe (map sexe g)"
  by (simp add: agg_usagers_def agg_grav_def)













section \<open>Enrichment of a frame\<close>












section \<open>Splitting and labels of the time of day\<close>

lemma split_hd: "split sep s \<noteq> [] \<and> hd (split sep s) = takeWhile (\<lambda>c. c \<noteq> sep) s"
  by (induction s) (auto split: list.splits)

lemma periode_labels_distinct: "distinct [MATIN, APRES_MIDI, SOIREE, NUIT, NON_RENSEIGNE]"
  by (simp add: MATIN_def APRES_MIDI_def SOIREE_def NUIT_def NON_RENSEIGNE_def e_aigu_def e_grave_def)

section \<open>The small data set, evaluated\<close>

lemma ex_group1: "group_rows 1 ex_usagers = [ex_usagers ! 0, ex_usagers ! 2, ex_usagers ! 3]"
  by (simp add: group_rows_def ex_usagers_def)

lemma ex_group2: "group_rows 2 ex_usagers = [ex_usagers ! 1, ex_usagers ! 4]"
  by (simp add: group_rows_def ex_usagers_def)

lemma ex_group3: "group_rows 3 ex_usagers = []"
  by (simp add: group_rows_def ex_usagers_def)

lemma ex_agg1: "agg_usagers 1 (group_rows 1 ex_usagers) = ex_stats1"
  unfolding ex_group1
  by (simp add: ex_usagers_def agg_usagers_def agg_grav_def count_eq_def
      agg_catu_def agg_sexe_def agg_an_nais_def mean_skipna_def agg_count_def ex_stats1_def)

lemma ex_agg2: "agg_usagers 2 (group_rows 2 ex_usagers) = ex_stats2"
  unfolding ex_group2
  by (simp add: ex_usagers_def agg_usagers_def agg_grav_def count_eq_def
      agg_catu_def agg_sexe_def agg_an_nais_def mean_skipna_def agg_count_def ex_stats2_def)

lemma ex_stats_usagers: "stats_usagers ex_usagers = [ex_stats1, ex_stats2]"
proof -
  have "group_keys ex_usagers = [1, 2]"
    by (simp add: group_keys_def ex_usagers_def)
  then show ?thesis
    by (simp add: stats_usagers_def ex_agg1 ex_agg2)
qed

lemma ex_df_accident:
  "df_accident ex_caract ex_usagers ex_vehicules ex_lieux = [ex_ligne1, ex_ligne2, ex_ligne3]"
proof -
  have u: "usagers_de (Some 1) ex_usagers = Some ex_stats1"
          "usagers_de (Some 2) ex_usagers = Some ex_stats2"
          "usagers_de (Some 3) ex_usagers = None"
    by (simp_all add: usagers_de_def ex_agg1 ex_agg2 ex_group3) (simp_all add: ex_group1 ex_group2)
  have v: "vehicules_de (Some 1) ex_vehicules = Some \<lparr>Num_Acc = Some 1, nb_vehicules = 2\<rparr>"
          "vehicules_de (Some 2) ex_vehicules = Some \<lparr>Num_Acc = Some 2, nb_vehicules = 1\<rparr>"
          "vehicules_de (Some 3) ex_vehicules = None"
    by (simp_all add: vehicules_de_def group_rows_def ex_vehicules_def)
  have l1: "ligne ex_usagers ex_vehicules ex_lieux \<lparr>Num_Acc = Some 1\<rparr> = ex_ligne1"
    by (simp add: ligne_def u v ex_lieux_def blank_def add_gravite_def Let_def col_def
        plus_na_def times_na_def categoriser_gravite_def gt0_def ex_ligne1_def ex_stats1_def)
  have l2: "ligne ex_usagers ex_vehicules ex_lieux \<lparr>Num_Acc = Some 2\<rparr> = ex_ligne2"
    by (simp add: ligne_def u v ex_lieux_def blank_def add_gravite_def Let_def col_def
        plus_na_def times_na_def categoriser_gravite_def gt0_def ex_ligne2_def ex_stats2_def)
  have l3: "ligne ex_usagers ex_vehicules ex_lieux \<lparr>Num_Acc = Some 3\<rparr> = ex_ligne3"
    by (simp add: ligne_def u v ex_lieux_def blank_def add_gravite_def Let_def col_def
        plus_na_def times_na_def categoriser_gravite_def gt0_def ex_ligne3_def)
  show ?thesis
    by (simp add: df_accident_eq ex_caract_def l1 l2 l3)
qed


lemma int_ascii_examples:
  "int_ascii ''07'' = Some 7" "int_ascii ''14'' = Some 14" "int_ascii ''19'' = Some 19"
  "int_ascii ''23'' = Some 23" "int_ascii ''abc'' = None" "int_ascii [] = None"
  by (simp_all add: int_ascii_def strip_def is_space_def digits_value_def digit_val_def)



section \<open>Severity score and severity class\<close>

text \<open>
  Claim C1. In every row of the accident-grain table whose three casualty counts are
  defined, \<open>score_gravite\<close> is \<open>nb_tues * 100 + nb_blesses_hospitalises * 30 +
  nb_blesses_legers * 10\<close>.
\<close>

theorem score_gravite_exact:
  "\<forall>r \<in> set (df_accident caract usagers vehicules lieux).
     \<forall>t h l. col nb_tues r = Some t \<and> col nb_blesses_hospitalises r = Some h
               \<and> col nb_blesses_legers r = Some l
       \<longrightarrow> score_gravite r = Some (t * 100 + h * 30 + l * 10)"
  by (auto simp: df_accident_eq score_ligne plus_na_def times_na_def)

theorem score_gravite_exact_witness:
  "ex_ligne1 \<in> set (df_accident ex_caract ex_usagers ex_vehicules ex_lieux)
   \<and> col nb_tues ex_ligne1 = Some 1 \<and> col nb_blesses_hospitalises ex_ligne1 = Some 0
   \<and> col nb_blesses_legers ex_ligne1 = Some 1
   \<and> score_gravite ex_ligne1 = Some 110"
proof -
  have m: "ex_ligne1 \<in> set (df_accident ex_caract ex_usagers ex_vehicules ex_lieux)"
    by (simp add: ex_df_accident)
  have c: "col nb_tues ex_ligne1 = Some 1 \<and> col nb_blesses_hospitalises ex_ligne1 = Some 0
           \<and> col nb_blesses_legers ex_ligne1 = Some 1"
    by (simp add: col_def ex_ligne1_def ex_stats1_def)
  from score_gravite_exact [rule_format, OF m c]
  have "score_gravite ex_ligne1 = Some (1 * 100 + 0 * 30 + 1 * 10)" .
  with m c show ?thesis by simp
qed

text \<open>
  Claim C2. In every row of the accident-grain table the severity class is decided by
  three tests in order, the first that holds winning (\<open>gt0\<close>: a null count is not
  positive): a positive \<open>nb_tues\<close> gives the
  fatal class, else a positive \<open>nb_blesses_hospitalises\<close> the severe class, else a
  positive \<open>nb_blesses_legers\<close> the light class, else the material-damage-only class. In
  particular a row with \<open>nb_tues > 0\<close> is fatal whatever the other counts are. The four
  class labels are pairwise different, so the order of the tests is observable.
\<close>

theorem categorie_gravite_priority:
  "(\<forall>r \<in> set (df_accident caract usagers vehicules lieux).
      categorie_gravite r =
        (if gt0 (col nb_tues r) then MORTEL
         else if gt0 (col nb_blesses_hospitalises r) then GRAVE
         else if gt0 (col nb_blesses_legers r) then LEGER
         else MATERIEL_UNIQUEMENT)
      \<and> (\<forall>t. col nb_tues r = Some t \<and> t > 0 \<longrightarrow> categorie_gravite r = MORTEL))
   \<and> distinct [MORTEL, GRAVE, LEGER, MATERIEL_UNIQUEMENT]"
proof
  show "\<forall>r \<in> set (df_accident caract usagers vehicules lieux).
      categorie_gravite r =
        (if gt0 (col nb_tues r) then MORTEL
         else if gt0 (col nb_blesses_hospitalises r) then GRAVE
         else if gt0 (col nb_blesses_legers r) then LEGER
         else MATERIEL_UNIQUEMENT)
      \<and> (\<forall>t. col nb_tues r = Some t \<and> t > 0 \<longrightarrow> categorie_gravite r = MORTEL)"
    by (auto simp: df_accident_eq categorie_ligne categoriser_gravite_def gt0_def)
  show "distinct [MORTEL, GRAVE, LEGER, MATERIEL_UNIQUEMENT]"
    using labels_distinct by simp
qed

theorem categorie_gravite_priority_witness:
  "ex_ligne1 \<in> set (df_accident ex_caract ex_usagers ex_vehicules ex_lieux)
   \<and> col nb_tues ex_ligne1 = Some 1 \<and> col nb_blesses_legers ex_ligne1 = Some 1
   \<and> categorie_gravite ex_ligne1 = MORTEL"
proof -
  have m: "ex_ligne1 \<in> set (df_accident ex_caract ex_usagers ex_vehicules ex_lieux)"
    by (simp add: ex_df_accident)
  have c: "col nb_tues ex_ligne1 = Some 1 \<and> (1::nat) > 0"
    by (simp add: col_def ex_ligne1_def ex_stats1_def)
  have l: "col nb_blesses_legers ex_ligne1 = Some 1"
    by (simp add: col_def ex_ligne1_def ex_stats1_def)
  from categorie_gravite_priority [of ex_caract ex_usagers ex_vehicules ex_lieux] m
  have "\<forall>t. col nb_tues ex_ligne1 = Some t \<and> t > 0 \<longrightarrow> categorie_gravite ex_ligne1 = MORTEL"
    by blast
  with c have "categorie_gravite ex_ligne1 = MORTEL" by blast
  with m c l show ?thesis by simp
qed

text \<open>
  Claim C9. An accident of the characteristics table that no person row matches has null
  casualty counts after the merge, is classified material-damage-only and has
  \<open>accident_mortel = 0\<close>. In every row the class is one of the four labels and the flag is
  0 or 1: neither is ever null.
\<close>

theorem no_person_material_only:
  "\<forall>r \<in> set (df_accident caract usagers vehicules lieux).
     (Num_Acc (base r) \<notin> Num_Acc ` set usagers
        \<longrightarrow> col nb_tues r = None \<and> col nb_blesses_hospitalises r = None
            \<and> col nb_blesses_legers r = None \<and> col nb_indemnes r = None
            \<and> categorie_gravite r = MATERIEL_UNIQUEMENT \<and> accident_mortel r = 0)
     \<and> categorie_gravite r \<in> {MORTEL, GRAVE, LEGER, MATERIEL_UNIQUEMENT}
     \<and> accident_mortel r \<in> {0, 1}"
proof
  fix r assume "r \<in> set (df_accident caract usagers vehicules lieux)"
  then obtain c where c: "c \<in> set caract" and r: "r = ligne usagers vehicules lieux c"
    by (auto simp: df_accident_eq)
  have b: "base r = c"
    by (simp add: r ligne_def base_add_gravite blank_def)
  have none: "usagers_de (Num_Acc c) usagers = None" if "Num_Acc c \<notin> Num_Acc ` set usagers"
  proof (cases "Num_Acc c")
    case None
    then show ?thesis by (simp add: usagers_de_def)
  next
    case (Some k)
    with that have "group_rows k usagers = []"
      by (force simp: group_rows_def filter_empty_conv)
    with Some show ?thesis by (simp add: usagers_de_def)
  qed
  have p1: "Num_Acc (base r) \<notin> Num_Acc ` set usagers
        \<longrightarrow> col nb_tues r = None \<and> col nb_blesses_hospitalises r = None
            \<and> col nb_blesses_legers r = None \<and> col nb_indemnes r = None
            \<and> categorie_gravite r = MATERIEL_UNIQUEMENT \<and> accident_mortel r = 0"
  proof
    assume "Num_Acc (base r) \<notin> Num_Acc ` set usagers"
    with b have "usagers_de (Num_Acc c) usagers = None" by (simp add: none)
    then show "col nb_tues r = None \<and> col nb_blesses_hospitalises r = None
            \<and> col nb_blesses_legers r = None \<and> col nb_indemnes r = None
            \<and> categorie_gravite r = MATERIEL_UNIQUEMENT \<and> accident_mortel r = 0"
      by (simp add: r col_ligne categorie_ligne mortel_ligne categoriser_gravite_def gt0_def)
  qed
  have p2: "categorie_gravite r \<in> {MORTEL, GRAVE, LEGER, MATERIEL_UNIQUEMENT}"
    by (simp add: r categorie_ligne categoriser_gravite_def)
  have p3: "accident_mortel r \<in> {0, 1}"
    by (simp add: r mortel_ligne)
  from p1 p2 p3
  show "(Num_Acc (base r) \<notin> Num_Acc ` set usagers
        \<longrightarrow> col nb_tues r = None \<and> col nb_blesses_hospitalises r = None
            \<and> col nb_blesses_legers r = None \<and> col nb_indemnes r = None
            \<and> categorie_gravite r = MATERIEL_UNIQUEMENT \<and> accident_mortel r = 0)
     \<and> categorie_gravite r \<in> {MORTEL, GRAVE, LEGER, MATERIEL_UNIQUEMENT}
     \<and> accident_mortel r \<in> {0, 1}"
    by blast
qed

theorem no_person_material_only_witness:
  "ex_ligne3 \<in> set (df_accident ex_caract ex_usagers ex_vehicules ex_lieux)
   \<and> Num_Acc (base ex_ligne3) \<notin> Num_Acc ` set ex_usagers
   \<and> col nb_tues ex_ligne3 = None
   \<and> categorie_gravite ex_ligne3 = MATERIEL_UNIQUEMENT \<and> accident_mortel ex_ligne3 = 0"
proof -
  have m: "ex_ligne3 \<in> set (df_accident ex_caract ex_usagers ex_vehicules ex_lieux)"
    by (simp add: ex_df_accident)
  have n: "Num_Acc (base ex_ligne3) \<notin> Num_Acc ` set ex_usagers"
    by (simp add: ex_ligne3_def ex_usagers_def)
  from no_person_material_only [rule_format, OF m] n
  have "col nb_tues ex_ligne3 = None
   \<and> categorie_gravite ex_ligne3 = MATERIEL_UNIQUEMENT \<and> accident_mortel ex_ligne3 = 0"
    by blast
  with m n show ?thesis by simp
qed

section \<open>Rows of the accident-grain table\<close>



section \<open>Per-accident aggregates\<close>

text \<open>
  Claim C4, as amended. For every accident that has at least one person row,
  \<open>pct_hommes\<close> is the number of its persons with sex code 1 divided by the number of its
  person rows. The reducer returns 0 on an empty group, but no group is empty: an accident
  of the characteristics table without person rows has a null \<open>pct_hommes\<close> in the
  accident-grain table.
\<close>

theorem pct_hommes_ratio:
  "(\<forall>r \<in> set (df_accident caract usagers vehicules lieux). \<forall>k. Num_Acc (base r) = Some k \<longrightarrow>
      (group_rows k usagers \<noteq> [] \<longrightarrow>
         col pct_hommes r =
           Some (of_nat (length (filter (\<lambda>p. sexe p = Some 1) (group_rows k usagers)))
                 / of_nat (length (group_rows k usagers))))
    \<and> (group_rows k usagers = [] \<longrightarrow> col pct_hommes r = None))
   \<and> agg_sexe [] = 0"
  by (auto simp: df_accident_eq base_ligne col_ligne usagers_de_def pct_hommes_agg agg_sexe_def
      count_eq_map)

theorem pct_hommes_ratio_witness:
  "ex_ligne1 \<in> set (df_accident ex_caract ex_usagers ex_vehicules ex_lieux)
   \<and> Num_Acc (base ex_ligne1) = Some 1 \<and> length (group_rows 1 ex_usagers) = 3
   \<and> col pct_hommes ex_ligne1 = Some (1 / 3)
   \<and> ex_ligne3 \<in> set (df_accident ex_caract ex_usagers ex_vehicules ex_lieux)
   \<and> Num_Acc (base ex_ligne3) = Some 3 \<and> group_rows 3 ex_usagers = []
   \<and> col pct_hommes ex_ligne3 = None"
proof -
  note t = pct_hommes_ratio [of ex_caract ex_usagers ex_vehicules ex_lieux]
  have m3: "ex_ligne3 \<in> set (df_accident ex_caract ex_usagers ex_vehicules ex_lieux)"
   and m1: "ex_ligne1 \<in> set (df_accident ex_caract ex_usagers ex_vehicules ex_lieux)"
    by (simp_all add: ex_df_accident)
  have k: "Num_Acc (base ex_ligne1) = Some 1" "Num_Acc (base ex_ligne3) = Some 3"
    by (simp_all add: ex_ligne1_def ex_ligne3_def)
  have g1: "group_rows 1 ex_usagers \<noteq> []" "length (group_rows 1 ex_usagers) = 3"
    "length (filter (\<lambda>p. sexe p = Some 1) (group_rows 1 ex_usagers)) = 1"
    by (simp_all add: ex_group1) (simp add: ex_usagers_def)
  from t m1 k(1) g1(1)
  have "col pct_hommes ex_ligne1 =
           Some (of_nat (length (filter (\<lambda>p. sexe p = Some 1) (group_rows 1 ex_usagers)))
                 / of_nat (length (group_rows 1 ex_usagers)))"
    by blast
  then have a: "col pct_hommes ex_ligne1 = Some (1 / 3)"
    by (simp add: g1)
  from t m3 k(2) ex_group3 have b: "col pct_hommes ex_ligne3 = None"
    by blast
  from m1 m3 k g1 a b ex_group3 show ?thesis by simp
qed

text \<open>
  The claim as first stated gives \<open>pct_hommes = 0\<close> to an accident without persons. The
  third accident of the data set has none, and its \<open>pct_hommes\<close> is null.
\<close>

theorem pct_hommes_zero_counterexample:
  "ex_ligne3 \<in> set (df_accident ex_caract ex_usagers ex_vehicules ex_lieux)
   \<and> Num_Acc (base ex_ligne3) = Some 3 \<and> group_rows 3 ex_usagers = []
   \<and> col pct_hommes ex_ligne3 \<noteq> Some 0"
  by (simp add: ex_df_accident ex_group3) (simp add: ex_ligne3_def col_def)






section \<open>Label enrichment\<close>



section \<open>Time of day\<close>

text \<open>
  Claim C8. With \<open>h\<close> the integer read from the text before the first colon, the result
  is the morning label for \<open>6 \<le> h < 12\<close>, the afternoon label for \<open>12 \<le> h < 18\<close>, the
  evening label for \<open>18 \<le> h < 22\<close> and the night label otherwise. A missing cell and a
  text whose hour does not parse give the sentinel. The function is total: its result is
  always one of these five different labels.
\<close>

theorem periode_journee_buckets:
  "determiner_periode_journee to_int None = NON_RENSEIGNE
   \<and> (to_int (takeWhile (\<lambda>c. c \<noteq> CHR '':'') s) = None
        \<longrightarrow> determiner_periode_journee to_int (Some s) = NON_RENSEIGNE)
   \<and> (\<forall>h. to_int (takeWhile (\<lambda>c. c \<noteq> CHR '':'') s) = Some h
        \<longrightarrow> determiner_periode_journee to_int (Some s) =
              (if 6 \<le> h \<and> h < 12 then MATIN
               else if 12 \<le> h \<and> h < 18 then APRES_MIDI
               else if 18 \<le> h \<and> h < 22 then SOIREE
               else NUIT))
   \<and> determiner_periode_journee to_int heure \<in> {MATIN, APRES_MIDI, SOIREE, NUIT, NON_RENSEIGNE}
   \<and> distinct [MATIN, APRES_MIDI, SOIREE, NUIT, NON_RENSEIGNE]"
proof -
  obtain f fs where f: "split (CHR '':'') s = f # fs" "f = takeWhile (\<lambda>c. c \<noteq> CHR '':'') s"
    using split_hd [of "CHR '':''" s] by (cases "split (CHR '':'') s") auto
  have 1: "determiner_periode_journee to_int None = NON_RENSEIGNE"
    by (simp add: determiner_periode_journee_def)
  have 2: "to_int (takeWhile (\<lambda>c. c \<noteq> CHR '':'') s) = None
        \<longrightarrow> determiner_periode_journee to_int (Some s) = NON_RENSEIGNE"
    using f by (simp add: determiner_periode_journee_def)
  have 3: "\<forall>h. to_int (takeWhile (\<lambda>c. c \<noteq> CHR '':'') s) = Some h
        \<longrightarrow> determiner_periode_journee to_int (Some s) =
              (if 6 \<le> h \<and> h < 12 then MATIN
               else if 12 \<le> h \<and> h < 18 then APRES_MIDI
               else if 18 \<le> h \<and> h < 22 then SOIREE
               else NUIT)"
    using f by (simp add: determiner_periode_journee_def)
  have 4: "determiner_periode_journee to_int heure \<in> {MATIN, APRES_MIDI, SOIREE, NUIT, NON_RENSEIGNE}"
    by (simp add: determiner_periode_journee_def split: option.split list.split)
  from 1 2 3 4 periode_labels_distinct show ?thesis by blast
qed

theorem periode_journee_buckets_witness:
  "int_ascii (takeWhile (\<lambda>c. c \<noteq> CHR '':'') ''07:45'') = Some 7
   \<and> determiner_periode_journee int_ascii (Some ''07:45'') = MATIN
   \<and> int_ascii (takeWhile (\<lambda>c. c \<noteq> CHR '':'') ''14:00'') = Some 14
   \<and> determiner_periode_journee int_ascii (Some ''14:00'') = APRES_MIDI
   \<and> int_ascii (takeWhile (\<lambda>c. c \<noteq> CHR '':'') ''19:30'') = Some 19
   \<and> determiner_periode_journee int_ascii (Some ''19:30'') = SOIREE
   \<and> int_ascii (takeWhile (\<lambda>c. c \<noteq> CHR '':'') ''23:10'') = Some 23
   \<and> determiner_periode_journee int_ascii (Some ''23:10'') = NUIT
   \<and> int_ascii (takeWhile (\<lambda>c. c \<noteq> CHR '':'') ''abc'') = None
   \<and> determiner_periode_journee int_ascii (Some ''abc'') = NON_RENSEIGNE
   \<and> determiner_periode_journee int_ascii None = NON_RENSEIGNE"
proof -
  have p: "int_ascii (takeWhile (\<lambda>c. c \<noteq> CHR '':'') ''07:45'') = Some 7"
          "int_ascii (takeWhile (\<lambda>c. c \<noteq> CHR '':'') ''14:00'') = Some 14"
          "int_ascii (takeWhile (\<lambda>c. c \<noteq> CHR '':'') ''19:30'') = Some 19"
          "int_ascii (takeWhile (\<lambda>c. c \<noteq> CHR '':'') ''23:10'') = Some 23"
          "int_ascii (takeWhile (\<lambda>c. c \<noteq> CHR '':'') ''abc'') = None"
    by (simp_all add: int_ascii_examples)
  from periode_journee_buckets [of int_ascii "''07:45''"] p(1)
  have a: "determiner_periode_journee int_ascii (Some ''07:45'') = MATIN" by simp
  from periode_journee_buckets [of int_ascii "''14:00''"] p(2)
  have b: "determiner_periode_journee int_ascii (Some ''14:00'') = APRES_MIDI" by simp
  from periode_journee_buckets [of int_ascii "''19:30''"] p(3)
  have c: "determiner_periode_journee int_ascii (Some ''19:30'') = SOIREE" by simp
  from periode_journee_buckets [of int_ascii "''23:10''"] p(4)
  have d: "determiner_periode_journee int_ascii (Some ''23:10'') = NUIT" by simp
  from periode_journee_buckets [of int_ascii "''abc''"] p(5)
  have e: "determiner_periode_journee int_ascii (Some ''abc'') = NON_RENSEIGNE" by simp
  from periode_journee_buckets [of int_ascii "[]"]
  have f: "determiner_periode_journee int_ascii None = NON_RENSEIGNE" by simp
  from p a b c d e f show ?thesis by simp
qed

section \<open>Age buckets\<close>

text \<open>
  Claim C10. The age buckets are the intervals \<open>(0, 18]\<close>, \<open>(18, 25]\<close>, \<open>(25, 35]\<close>,
  \<open>(35, 45]\<close>, \<open>(45, 55]\<close>, \<open>(55, 65]\<close>, \<open>(65, 100]\<close>: an age of 0 or less, or above
  100, has a null bucket, and each upper edge belongs to the lower-labelled bucket, so a
  person aged exactly 18 is in \<open>0-17\<close>.
\<close>

theorem tranche_age_left_open:
  "tranche_age (Some a) =
     (if a \<le> 0 then None
      else if a \<le> 18 then Some ''0-17''
      else if a \<le> 25 then Some ''18-24''
      else if a \<le> 35 then Some ''25-34''
      else if a \<le> 45 then Some ''35-44''
      else if a \<le> 55 then Some ''45-54''
      else if a \<le> 65 then Some ''55-64''
      else if a \<le> 100 then Some ''65+''
      else None)
   \<and> tranche_age None = None
   \<and> calculer_age (Some 2024) 2024 = Some 0
   \<and> tranche_age (calculer_age (Some 2024) 2024) = None
   \<and> tranche_age (calculer_age (Some 1923) 2024) = None
   \<and> tranche_age (calculer_age (Some 2006) 2024) = Some ''0-17''
   \<and> tranche_age (calculer_age (Some 2005) 2024) = Some ''18-24''"
  by (simp add: tranche_age_def calculer_age_def)

theorem tranche_age_left_open_witness:
  "tranche_age (Some 0) = None \<and> tranche_age (Some 101) = None
   \<and> tranche_age (Some 18) = Some ''0-17'' \<and> tranche_age (Some 19) = Some ''18-24''
   \<and> tranche_age (Some 25) = Some ''18-24'' \<and> tranche_age (Some 35) = Some ''25-34''
   \<and> tranche_age (Some 45) = Some ''35-44'' \<and> tranche_age (Some 55) = Some ''45-54''
   \<and> tranche_age (Some 65) = Some ''55-64'' \<and> tranche_age (Some 100) = Some ''65+''"
  using tranche_age_left_open [of 0] tranche_age_left_open [of 101]
    tranche_age_left_open [of 18] tranche_age_left_open [of 19] tranche_age_left_open [of 25]
    tranche_age_left_open [of 35] tranche_age_left_open [of 45] tranche_age_left_open [of 55]
    tranche_age_left_open [of 65] tranche_age_left_open [of 100]
  by simp

end
